theory Spec2Isabelle
  imports Main "HOL-Library.Word" "HOL-Library.Sublist" "HOL-Library.AList"
begin

section \<open>JavaScript values as the application sees them\<close>

text \<open>
  The application (src/src/App.jsx) is a React component.  Its logic is string assembly
  (the two prompts), a hostname dispatch (\<open>processRetailerLink\<close>) and an undo history kept
  in component state.  A JavaScript string is a sequence of 16-bit code units, so it is
  modelled as a list of 16-bit words; \<open>js\<close> turns an ASCII literal of the source into such a
  list.
\<close>

type_synonym jsstr = "16 word list"

definition js :: "string \<Rightarrow> jsstr" where
  "js s = map of_char s"

text \<open>
  The values that reach the code come out of \<open>JSON.parse\<close> or are \<open>undefined\<close> (a missing
  property).  A Number is represented by the string that Number-to-String conversion gives
  for it: the program observes a Number only through that conversion and through its
  truthiness (\<open>0\<close>, \<open>-0\<close>, both printed \<open>0\<close>, and \<open>NaN\<close> are falsy).  An object is the list of
  its own enumerable properties, in enumeration order.
\<close>

datatype jsval =
    JUndefined
  | JNull
  | JBool bool
  | JNum jsstr
  | JStr jsstr
  | JArr "jsval list"
  | JObj "(jsstr \<times> jsval) list"

type_synonym js_object = "(jsstr \<times> jsval) list"

text \<open>
  Exceptions.  \<open>Error m\<close> is an exception object whose \<open>message\<close> is \<open>m\<close> (what
  \<open>callGeminiApi\<close> throws); \<open>TypeError\<close> and \<open>URIError\<close> are raised by the language itself
  (a property read on \<open>null\<close>, a failed conversion to a primitive, a lone surrogate given to
  \<open>encodeURIComponent\<close>).
\<close>

datatype js_exn = Error jsstr | TypeError | URIError

text \<open>
  Two things the browser provides and the repository does not contain: the URL parser
  behind \<open>new URL(s).hostname\<close> (\<open>None\<close> when the constructor throws), and the message
  text an engine attaches to the exceptions it raises itself.  Both are parameters.
\<close>

record platform =
  url_hostname :: "jsstr \<Rightarrow> jsstr option"
  engine_message :: "js_exn \<Rightarrow> jsstr"

definition err_message :: "platform \<Rightarrow> js_exn \<Rightarrow> jsstr" where
  "err_message pf e = (case e of Error m \<Rightarrow> m | _ \<Rightarrow> engine_message pf e)"

subsection \<open>Built-in operations used by the source\<close>

text \<open>Truthiness, as tested by \<open>if (x)\<close>, \<open>x || y\<close> and \<open>!x\<close>.\<close>

fun truthy :: "jsval \<Rightarrow> bool" where
  "truthy JUndefined = False"
| "truthy JNull = False"
| "truthy (JBool b) = b"
| "truthy (JNum s) = (s \<noteq> js ''0'' \<and> s \<noteq> js ''NaN'')"
| "truthy (JStr s) = (s \<noteq> [])"
| "truthy (JArr xs) = True"
| "truthy (JObj kvs) = True"

text \<open>
  Conversion to a string, as \<open>encodeURIComponent\<close> applies it to its argument.  An array
  joins its elements with commas, \<open>null\<close> and \<open>undefined\<close> elements counting as empty.  A
  parsed object inherits \<open>Object.prototype.toString\<close> unless an own property named
  \<open>toString\<close> shadows it; such a property is never callable, the inherited \<open>valueOf\<close>
  returns the object itself, and the conversion ends in a TypeError.
\<close>

fun to_string :: "jsval \<Rightarrow> js_exn + jsstr"
  and array_join :: "jsval list \<Rightarrow> js_exn + jsstr" where
  "to_string JUndefined = Inr (js ''undefined'')"
| "to_string JNull = Inr (js ''null'')"
| "to_string (JBool b) = Inr (if b then js ''true'' else js ''false'')"
| "to_string (JNum s) = Inr s"
| "to_string (JStr s) = Inr s"
| "to_string (JArr xs) = array_join xs"
| "to_string (JObj kvs) =
     (if js ''toString'' \<in> fst ` set kvs then Inl TypeError
      else Inr (js ''[object Object]''))"
| "array_join [] = Inr []"
| "array_join (x # xs) =
     (case (if x = JNull \<or> x = JUndefined then Inr [] else to_string x) of
        Inl e \<Rightarrow> Inl e
      | Inr s \<Rightarrow>
          (if xs = [] then Inr s
           else (case array_join xs of
                   Inl e \<Rightarrow> Inl e
                 | Inr r \<Rightarrow> Inr (s @ js '','' @ r))))"

text \<open>\<open>String.prototype.trim\<close>: strips white space and line terminators at both ends.\<close>

definition js_whitespace :: "16 word \<Rightarrow> bool" where
  "js_whitespace c =
     (c \<in> {0x9, 0xA, 0xB, 0xC, 0xD, 0x20, 0xA0, 0x1680, 0x2028, 0x2029, 0x202F, 0x205F,
           0x3000, 0xFEFF}
      \<or> (0x2000 \<le> c \<and> c \<le> 0x200A))"

definition js_trim :: "jsstr \<Rightarrow> jsstr" where
  "js_trim s = rev (dropWhile js_whitespace (rev (dropWhile js_whitespace s)))"

text \<open>\<open>s.includes(t)\<close>: \<open>t\<close> occurs in \<open>s\<close> as a contiguous run of code units.\<close>

definition js_includes :: "jsstr \<Rightarrow> jsstr \<Rightarrow> bool" where
  "js_includes s t = sublist t s"

text \<open>\<open>parts.join(sep)\<close> on an array of strings.\<close>

fun js_join :: "jsstr \<Rightarrow> jsstr list \<Rightarrow> jsstr" where
  "js_join sep [] = []"
| "js_join sep [x] = x"
| "js_join sep (x # y # ys) = x @ sep @ js_join sep (y # ys)"

text \<open>
  \<open>xs.slice(0, n)\<close>: a negative end counts from the end of the array.  \<open>xs[i]\<close>: reading
  outside the array gives \<open>undefined\<close>, here \<open>None\<close>.
\<close>

definition js_slice0 :: "'a list \<Rightarrow> int \<Rightarrow> 'a list" where
  "js_slice0 xs n = (if n < 0 then take (nat (int (length xs) + n)) xs else take (nat n) xs)"

definition js_index :: "'a list \<Rightarrow> int \<Rightarrow> 'a option" where
  "js_index xs i = (if 0 \<le> i \<and> i < int (length xs) then Some (xs ! nat i) else None)"

text \<open>
  \<open>encodeURIComponent\<close>: letters, digits and \<open>- _ . ! ~ * ' ( )\<close> are kept, every other
  code point is written as the percent-escaped octets of its UTF-8 form, and a surrogate
  code unit that is not part of a pair raises a URIError.
\<close>

definition uri_unescaped :: "16 word \<Rightarrow> bool" where
  "uri_unescaped c =
     ((0x41 \<le> c \<and> c \<le> 0x5A) \<or> (0x61 \<le> c \<and> c \<le> 0x7A) \<or> (0x30 \<le> c \<and> c \<le> 0x39)
      \<or> c \<in> {0x2D, 0x5F, 0x2E, 0x21, 0x7E, 0x2A, 0x27, 0x28, 0x29})"

definition leading_surrogate :: "16 word \<Rightarrow> bool" where
  "leading_surrogate c = (0xD800 \<le> c \<and> c \<le> 0xDBFF)"

definition trailing_surrogate :: "16 word \<Rightarrow> bool" where
  "trailing_surrogate c = (0xDC00 \<le> c \<and> c \<le> 0xDFFF)"

definition utf8_octets :: "nat \<Rightarrow> nat list" where
  "utf8_octets cp =
     (if cp < 0x80 then [cp]
      else if cp < 0x800 then [0xC0 + cp div 0x40, 0x80 + cp mod 0x40]
      else if cp < 0x10000 then
        [0xE0 + cp div 0x1000, 0x80 + (cp div 0x40) mod 0x40, 0x80 + cp mod 0x40]
      else
        [0xF0 + cp div 0x40000, 0x80 + (cp div 0x1000) mod 0x40,
         0x80 + (cp div 0x40) mod 0x40, 0x80 + cp mod 0x40])"

definition hex_digit :: "nat \<Rightarrow> 16 word" where
  "hex_digit d = (if d < 10 then of_nat (0x30 + d) else of_nat (0x41 + (d - 10)))"

definition percent_escape :: "nat \<Rightarrow> jsstr" where
  "percent_escape cp =
     concat (map (\<lambda>b. [0x25, hex_digit (b div 16), hex_digit (b mod 16)]) (utf8_octets cp))"

definition prepend :: "jsstr \<Rightarrow> js_exn + jsstr \<Rightarrow> js_exn + jsstr" where
  "prepend s r = (case r of Inl e \<Rightarrow> Inl e | Inr t \<Rightarrow> Inr (s @ t))"

fun encodeURIComponent :: "jsstr \<Rightarrow> js_exn + jsstr" where
  "encodeURIComponent [] = Inr []"
| "encodeURIComponent (c # cs) =
     (if uri_unescaped c then prepend [c] (encodeURIComponent cs)
      else if trailing_surrogate c then Inl URIError
      else if leading_surrogate c then
        (case cs of
           [] \<Rightarrow> Inl URIError
         | d # ds \<Rightarrow>
             (if trailing_surrogate d then
                prepend
                  (percent_escape ((unat c - 0xD800) * 0x400 + (unat d - 0xDC00) + 0x10000))
                  (encodeURIComponent ds)
              else Inl URIError))
      else prepend (percent_escape (unat c)) (encodeURIComponent cs))"

text \<open>
  \<open>String.prototype.isWellFormed\<close>: the string holds no lone surrogate.  These are the
  strings \<open>encodeURIComponent\<close> accepts (\<open>encodeURIComponent_returns_iff\<close> below).
\<close>

fun well_formed :: "jsstr \<Rightarrow> bool" where
  "well_formed [] = True"
| "well_formed (c # cs) =
     (if trailing_surrogate c then False
      else if leading_surrogate c then
        (case cs of [] \<Rightarrow> False | d # ds \<Rightarrow> trailing_surrogate d \<and> well_formed ds)
      else well_formed cs)"

section \<open>Link Rewriter: \<open>processRetailerLink\<close>\<close>

definition AMAZON_ASSOCIATE_TAG :: jsstr where
  "AMAZON_ASSOCIATE_TAG = js ''realstory-20''"

definition amazonDomains :: "jsstr list" where
  "amazonDomains =
     [js ''amazon.com'', js ''amazon.co.uk'', js ''amazon.ca'', js ''amazon.de'',
      js ''amazon.fr'', js ''amazon.it'', js ''amazon.es'', js ''amazon.co.jp'',
      js ''amazon.com.au'', js ''amazon.in'']"

text \<open>
  \<open>const searchTerm = encodeURIComponent(giftName || '')\<close>.  The statement stands before
  the \<open>try\<close> block of the function, so what it raises leaves the function.
\<close>

definition searchTerm :: "jsval \<Rightarrow> js_exn + jsstr" where
  "searchTerm giftName =
     (case to_string (if truthy giftName then giftName else JStr []) of
        Inl e \<Rightarrow> Inl e
      | Inr s \<Rightarrow> encodeURIComponent s)"

text \<open>
  The function returns a string or raises.  The \<open>console.warn\<close> and \<open>console.error\<close>
  calls only log and are left out.  The \<open>catch\<close> clause covers the URL constructor, the
  one operation of the \<open>try\<close> block that can throw.
\<close>

definition processRetailerLink :: "platform \<Rightarrow> jsval \<Rightarrow> jsval \<Rightarrow> js_exn + jsstr" where
  "processRetailerLink pf originalLink giftName =
     (case originalLink of
        JStr link \<Rightarrow>
          (if js_trim link = [] then Inr (js ''#'')
           else
             (case searchTerm giftName of
                Inl e \<Rightarrow> Inl e
              | Inr q \<Rightarrow>
                  (case url_hostname pf link of
                     None \<Rightarrow> Inr (js ''#'')
                   | Some hostname \<Rightarrow>
                       (if list_ex (\<lambda>domain. js_includes hostname domain) amazonDomains then
                          Inr (js ''https://'' @ hostname @ js ''/s?k='' @ q
                               @ js ''&tag='' @ AMAZON_ASSOCIATE_TAG)
                        else if js_includes hostname (js ''etsy.com'') then
                          Inr (js ''https://www.etsy.com/search?q='' @ q)
                        else if js_includes hostname (js ''target.com'') then
                          Inr (js ''https://www.target.com/s?searchTerm='' @ q)
                        else if js_includes hostname (js ''bestbuy.com'') then
                          Inr (js ''https://www.bestbuy.com/site/searchpage.jsp?st='' @ q)
                        else Inr link))))
      | _ \<Rightarrow> Inr (js ''#''))"

section \<open>Prompt Builder\<close>

text \<open>
  The eight criteria are component state set from form inputs, so each is a string; a
  field is present when its string is non-empty (\<open>if (occasion)\<close>).
\<close>

record criteria =
  interests :: jsstr
  notableEvents :: jsstr
  minPrice :: jsstr
  maxPrice :: jsstr
  age :: jsstr
  gender :: jsstr
  relationship :: jsstr
  occasion :: jsstr

definition priceRangeString :: "criteria \<Rightarrow> jsstr" where
  "priceRangeString c =
     (if minPrice c \<noteq> [] \<and> maxPrice c \<noteq> [] then
        js ''between $'' @ minPrice c @ js '' and $'' @ maxPrice c
      else if minPrice c \<noteq> [] then js ''above $'' @ minPrice c
      else if maxPrice c \<noteq> [] then js ''up to $'' @ maxPrice c
      else [])"

text \<open>\<open>if (cond) parts.push(part)\<close>.\<close>

definition push_if :: "bool \<Rightarrow> jsstr \<Rightarrow> jsstr list \<Rightarrow> jsstr list" where
  "push_if cond part parts = (if cond then parts @ [part] else parts)"

text \<open>Lines 207 to 213: the opening sentence and the clauses of the six plain fields.\<close>

definition criteriaParts :: "criteria \<Rightarrow> jsstr list" where
  "criteriaParts c =
     (let parts = [js ''I need a gift suggestion for someone.''];
          parts = push_if (occasion c \<noteq> [])
                    (js ''The occasion is '' @ occasion c @ js ''.'') parts;
          parts = push_if (relationship c \<noteq> [])
                    (js ''They are my '' @ relationship c @ js ''.'') parts;
          parts = push_if (age c \<noteq> [])
                    (js ''They are '' @ age c @ js '' years old.'') parts;
          parts = push_if (gender c \<noteq> [])
                    (js ''Their gender is '' @ gender c @ js ''.'') parts;
          parts = push_if (notableEvents c \<noteq> [])
                    (js ''Notable events in their life include '' @ notableEvents c @ js ''.'')
                    parts;
          parts = push_if (interests c \<noteq> [])
                    (js ''They are interested in '' @ interests c @ js ''.'') parts
      in parts)"

text \<open>Line 214: the price clause is pushed last, when \<open>priceRangeString\<close> is non-empty.\<close>

definition promptParts :: "criteria \<Rightarrow> jsstr list" where
  "promptParts c =
     push_if (priceRangeString c \<noteq> [])
       (js ''The price range should be '' @ priceRangeString c @ js ''.'') (criteriaParts c)"

definition mainPrompt_suffix :: jsstr where
  "mainPrompt_suffix =
     js '' Please provide a list of at least 5 varied and diverse gift ideas. For each idea, include its name, a brief description, and a direct purchase link. Prioritize direct product links from major retailers like Amazon, Etsy, Target, Best Buy, or official brand websites. If a direct product link is not feasible, provide a relevant search results page link on a major retailer. Respond in JSON format as an. array of objects, each with 'name', 'description', and 'purchaseLink' fields.''"

definition mainPrompt :: "criteria \<Rightarrow> jsstr" where
  "mainPrompt c = js_join (js '' '') (promptParts c) @ mainPrompt_suffix"

definition messagePromptParts :: "criteria \<Rightarrow> jsstr list" where
  "messagePromptParts c =
     (let parts = [js ''Write a heartfelt and creative gift card message or a short poem.''];
          parts = push_if (occasion c \<noteq> [])
                    (js ''The occasion is '' @ occasion c @ js ''.'') parts;
          parts = push_if (relationship c \<noteq> [])
                    (js ''The recipient is my '' @ relationship c @ js ''.'') parts;
          parts = push_if (age c \<noteq> [])
                    (js ''They are '' @ age c @ js '' years old.'') parts;
          parts = push_if (gender c \<noteq> [])
                    (js ''Their gender is '' @ gender c @ js ''.'') parts;
          parts = push_if (interests c \<noteq> [])
                    (js ''They are interested in '' @ interests c @ js ''.'') parts;
          parts = push_if (notableEvents c \<noteq> [])
                    (js ''They have been busy with '' @ notableEvents c @ js ''.'') parts
      in parts)"

definition fullMessagePrompt_suffix :: jsstr where
  "fullMessagePrompt_suffix =
     js '' Make sure the message is suitable for the context and tone. Keep it concise, around 50-100 words.''"

definition fullMessagePrompt :: "criteria \<Rightarrow> jsstr" where
  "fullMessagePrompt c = js_join (js '' '') (messagePromptParts c) @ fullMessagePrompt_suffix"

subsection \<open>The rule of the specification, for comparison\<close>

text \<open>
  Section 4.1 of the specification: each present field contributes exactly one clause, in
  a fixed order, and an absent field contributes nothing.  \<open>present_clauses\<close> keeps, in
  order, the clauses whose field is present.
\<close>

definition present_clauses :: "(bool \<times> jsstr) list \<Rightarrow> jsstr list" where
  "present_clauses cs = map snd (filter fst cs)"

section \<open>Suggestion Orchestrator and History Tracker\<close>

text \<open>
  The component state the orchestrator and the history buttons touch.  \<open>giftIdeas\<close> is
  \<open>None\<close> when the state holds \<open>undefined\<close>, which \<open>setGiftIdeas(giftIdeasHistory[i])\<close>
  stores for an index outside the history.  \<open>error\<close> is \<open>None\<close> for \<open>null\<close>.  The cursor
  is a JavaScript number that starts at -1 and moves by one; it is an integer here.
\<close>

record app_state =
  giftIdeas :: "js_object list option"
  isLoading :: bool
  error :: "jsstr option"
  giftIdeasHistory :: "js_object list list"
  historyIndex :: int

definition init_state :: app_state where
  "init_state =
     \<lparr>giftIdeas = Some [], isLoading = False, error = None, giftIdeasHistory = [],
      historyIndex = - 1\<rparr>"

text \<open>
  \<open>callGeminiApi\<close> is network input and output: a request, the reading of the response and
  \<open>JSON.parse\<close>.  What \<open>fetchGiftSuggestions\<close> sees of the awaited call is a returned
  value or a thrown exception, and the model takes that outcome as a function of the
  prompt that was sent.
\<close>

datatype api_outcome = Returned jsval | Threw js_exn

text \<open>\<open>Array.isArray(v)\<close>, and the elements of an array.\<close>

fun isArray :: "jsval \<Rightarrow> bool" where
  "isArray (JArr xs) = True"
| "isArray v = False"

fun elements :: "jsval \<Rightarrow> jsval list" where
  "elements (JArr xs) = xs"
| "elements v = []"

text \<open>
  \<open>gift.purchaseLink\<close> and \<open>gift.name\<close>.  Reading a property of \<open>null\<close> or \<open>undefined\<close>
  raises a TypeError.  No prototype of a parsed value defines either name, so on every
  other value the read gives the own property or \<open>undefined\<close>.
\<close>

definition gift_property :: "jsval \<Rightarrow> jsstr \<Rightarrow> js_exn + jsval" where
  "gift_property gift k =
     (case gift of
        JUndefined \<Rightarrow> Inl TypeError
      | JNull \<Rightarrow> Inl TypeError
      | JObj kvs \<Rightarrow> Inr (case map_of kvs k of Some v \<Rightarrow> v | None \<Rightarrow> JUndefined)
      | _ \<Rightarrow> Inr JUndefined)"

text \<open>
  \<open>{...gift}\<close> copies the own enumerable properties: all of an object, the indexed code
  units of a string, the indexed elements of an array, none of any other value.
\<close>

fun decimal :: "nat \<Rightarrow> jsstr" where
  "decimal n =
     (if n < 10 then [of_nat (0x30 + n)]
      else decimal (n div 10) @ [of_nat (0x30 + n mod 10)])"

declare decimal.simps [simp del]

definition own_properties :: "jsval \<Rightarrow> js_object" where
  "own_properties v =
     (case v of
        JObj kvs \<Rightarrow> kvs
      | JStr s \<Rightarrow> zip (map decimal [0..<length s]) (map (\<lambda>c. JStr [c]) s)
      | JArr xs \<Rightarrow> zip (map decimal [0..<length xs]) xs
      | _ \<Rightarrow> [])"

text \<open>
  The callback of \<open>map\<close>:
  \<open>gift => ({...gift, purchaseLink: processRetailerLink(gift.purchaseLink, gift.name)})\<close>.
  Setting \<open>purchaseLink\<close> after the spread replaces the value where the key exists and
  adds the key at the end otherwise.
\<close>

definition rewrite_gift :: "platform \<Rightarrow> jsval \<Rightarrow> js_exn + js_object" where
  "rewrite_gift pf gift =
     (case gift_property gift (js ''purchaseLink'') of
        Inl e \<Rightarrow> Inl e
      | Inr link \<Rightarrow>
          (case gift_property gift (js ''name'') of
             Inl e \<Rightarrow> Inl e
           | Inr name \<Rightarrow>
               (case processRetailerLink pf link name of
                  Inl e \<Rightarrow> Inl e
                | Inr rewritten \<Rightarrow>
                    Inr (AList.update (js ''purchaseLink'') (JStr rewritten)
                           (own_properties gift)))))"

text \<open>\<open>Array.prototype.map\<close> with a callback that may throw: the first exception ends it.\<close>

fun map_gifts :: "platform \<Rightarrow> jsval list \<Rightarrow> js_exn + js_object list" where
  "map_gifts pf [] = Inr []"
| "map_gifts pf (g # gs) =
     (case rewrite_gift pf g of
        Inl e \<Rightarrow> Inl e
      | Inr obj \<Rightarrow>
          (case map_gifts pf gs of Inl e \<Rightarrow> Inl e | Inr objs \<Rightarrow> Inr (obj # objs)))"

definition processedGiftIdeas :: "platform \<Rightarrow> jsval list \<Rightarrow> js_exn + js_object list" where
  "processedGiftIdeas pf parsedJson = map_gifts pf (js_slice0 parsedJson 5)"

text \<open>
  Lines 239 to 244 of the source: publish the processed ideas and push them to the
  history.  \<open>captured\<close> is the \<open>historyIndex\<close> of the closure (the value at the render
  that created the callback); the history and the cursor are updated from their previous
  values.
\<close>

definition publish_and_push :: "int \<Rightarrow> js_object list \<Rightarrow> app_state \<Rightarrow> app_state" where
  "publish_and_push captured processed st =
     st\<lparr>giftIdeas := Some processed,
        giftIdeasHistory := js_slice0 (giftIdeasHistory st) (captured + 1) @ [processed],
        historyIndex := historyIndex st + 1\<rparr>"

text \<open>The three state updates before the request is sent.\<close>

definition fetch_start :: "app_state \<Rightarrow> app_state" where
  "fetch_start st = st\<lparr>giftIdeas := Some [], error := None, isLoading := True\<rparr>"

definition fetch_failed :: "platform \<Rightarrow> js_exn \<Rightarrow> app_state \<Rightarrow> app_state" where
  "fetch_failed pf err st =
     st\<lparr>error := Some (js ''Failed to fetch gift suggestions: '' @ err_message pf err
                       @ js ''. Please try again.''),
        isLoading := False\<rparr>"

text \<open>
  The \<open>try\<close>, \<open>catch\<close> and \<open>finally\<close> of \<open>fetchGiftSuggestions\<close>, run when the awaited
  call has settled.  An exception of the call and an exception of the \<open>map\<close> callback end
  in the same \<open>catch\<close>.
\<close>

definition fetch_finish :: "platform \<Rightarrow> int \<Rightarrow> api_outcome \<Rightarrow> app_state \<Rightarrow> app_state" where
  "fetch_finish pf captured outcome st =
     (case outcome of
        Threw err \<Rightarrow> fetch_failed pf err st
      | Returned parsedJson \<Rightarrow>
          (if isArray parsedJson then
             (case processedGiftIdeas pf (elements parsedJson) of
                Inl err \<Rightarrow> fetch_failed pf err st
              | Inr processed \<Rightarrow> (publish_and_push captured processed st)\<lparr>isLoading := False\<rparr>)
           else
             st\<lparr>error := Some (js ''Received unexpected data format from API. Please try again.''),
                isLoading := False\<rparr>))"

text \<open>
  One whole fetch.  The history buttons and the fetch buttons are disabled while
  \<open>isLoading\<close> holds, so nothing moves the cursor between the click and the response,
  and the captured index is the index of the state at the click.
\<close>

definition fetchGiftSuggestions ::
  "platform \<Rightarrow> (jsstr \<Rightarrow> api_outcome) \<Rightarrow> criteria \<Rightarrow> app_state \<Rightarrow> app_state" where
  "fetchGiftSuggestions pf callGeminiApi c st =
     fetch_finish pf (historyIndex st) (callGeminiApi (mainPrompt c)) (fetch_start st)"

text \<open>The push of the History Tracker on its own, with the closure's index up to date.\<close>

definition push :: "js_object list \<Rightarrow> app_state \<Rightarrow> app_state" where
  "push entry st = publish_and_push (historyIndex st) entry st"

definition goBackInHistory :: "app_state \<Rightarrow> app_state" where
  "goBackInHistory st =
     (if historyIndex st > 0 then
        (let newIndex = historyIndex st - 1
         in st\<lparr>historyIndex := newIndex,
               giftIdeas := js_index (giftIdeasHistory st) newIndex,
               error := None\<rparr>)
      else st)"

definition goForwardInHistory :: "app_state \<Rightarrow> app_state" where
  "goForwardInHistory st =
     (if historyIndex st < int (length (giftIdeasHistory st)) - 1 then
        (let newIndex = historyIndex st + 1
         in st\<lparr>historyIndex := newIndex,
               giftIdeas := js_index (giftIdeasHistory st) newIndex,
               error := None\<rparr>)
      else st)"

text \<open>
  The states the application can be in: the initial state and what a fetch and the two
  history buttons give.  (Generating a card message writes only the error field among
  the fields of \<open>app_state\<close>, and no property below depends on that field of a reachable
  state.)
\<close>

inductive reachable :: "platform \<Rightarrow> app_state \<Rightarrow> bool" for pf :: platform where
  reachable_init: "reachable pf init_state"
| reachable_fetch: "reachable pf st \<Longrightarrow> reachable pf (fetchGiftSuggestions pf api c st)"
| reachable_back: "reachable pf st \<Longrightarrow> reachable pf (goBackInHistory st)"
| reachable_forward: "reachable pf st \<Longrightarrow> reachable pf (goForwardInHistory st)"

section \<open>Sample inputs\<close>

text \<open>
  Concrete inputs at which the theorems below are evaluated.  \<open>sample_hostnames\<close> lists
  what the URL parser answers on the sample links (the host between \<open>https://\<close> and the
  next slash) and fails on every other string; \<open>sample_message\<close> gives exception texts
  (for a TypeError the text of a property read on \<open>null\<close>, the one TypeError the
  examples with a message raise).
\<close>

definition sample_hostnames :: "jsstr \<Rightarrow> jsstr option" where
  "sample_hostnames =
     [js ''https://etsy.com.amazon.co.uk/target.com'' \<mapsto> js ''etsy.com.amazon.co.uk'',
      js ''https://amazon.com.evil.example/x'' \<mapsto> js ''amazon.com.evil.example'',
      js ''https://www.amazon.com/dp/B000123'' \<mapsto> js ''www.amazon.com'',
      js ''https://www.etsy.com/listing/1'' \<mapsto> js ''www.etsy.com'',
      js ''https://www.target.com/p/2'' \<mapsto> js ''www.target.com'',
      js ''https://www.bestbuy.com/site/3'' \<mapsto> js ''www.bestbuy.com'',
      js ''https://brandsite.example/product/123'' \<mapsto> js ''brandsite.example'']"

definition sample_message :: "js_exn \<Rightarrow> jsstr" where
  "sample_message e =
     (case e of
        Error m \<Rightarrow> m
      | TypeError \<Rightarrow> js ''Cannot read properties of null (reading 'purchaseLink')''
      | URIError \<Rightarrow> js ''URI malformed'')"

definition sample_platform :: platform where
  "sample_platform = \<lparr>url_hostname = sample_hostnames, engine_message = sample_message\<rparr>"

text \<open>A gateway call that returns the same value, or throws the same exception, for every prompt.\<close>

definition gateway_returns :: "jsval \<Rightarrow> jsstr \<Rightarrow> api_outcome" where
  "gateway_returns v prompt = Returned v"

definition gateway_throws :: "js_exn \<Rightarrow> jsstr \<Rightarrow> api_outcome" where
  "gateway_throws e prompt = Threw e"

definition sample_criteria :: criteria where
  "sample_criteria =
     \<lparr>interests = [], notableEvents = [], minPrice = [], maxPrice = [], age = js ''30'',
      gender = [], relationship = [], occasion = js ''Birthday''\<rparr>"

definition sample_gift :: "jsstr \<Rightarrow> jsstr \<Rightarrow> jsval" where
  "sample_gift name link =
     JObj [(js ''name'', JStr name), (js ''description'', JStr (js ''A gift.'')),
           (js ''purchaseLink'', JStr link)]"

text \<open>
  A response of six gift ideas; a history entry that holds one processed gift idea of a
  given name; a state whose history has three entries, with the cursor on the second.
\<close>

definition sample_response :: jsval where
  "sample_response =
     JArr [sample_gift (js ''Tea pot'') (js ''https://www.amazon.com/dp/B000123''),
           sample_gift (js ''Tea pot'') (js ''https://www.etsy.com/listing/1''),
           sample_gift (js ''Tea pot'') (js ''https://www.target.com/p/2''),
           sample_gift (js ''Tea pot'') (js ''https://www.bestbuy.com/site/3''),
           sample_gift (js ''Tea pot'') (js ''https://brandsite.example/product/123''),
           sample_gift (js ''Tea pot'') (js ''not a url'')]"

definition sample_entry :: "jsstr \<Rightarrow> js_object list" where
  "sample_entry name = [[(js ''name'', JStr name), (js ''purchaseLink'', JStr (js ''#''))]]"

definition sample_history_state :: app_state where
  "sample_history_state =
     \<lparr>giftIdeas = Some (sample_entry (js ''Book'')), isLoading = False, error = None,
      giftIdeasHistory =
        [sample_entry (js ''Mug''), sample_entry (js ''Book''), sample_entry (js ''Lamp'')],
      historyIndex = 1\<rparr>"

section \<open>Properties of the Link Rewriter\<close>

lemma js_append: "js (a @ b) = js a @ js b"
  by (simp add: js_def)

lemma processRetailerLink_not_string:
  "(\<And>s. originalLink \<noteq> JStr s) \<Longrightarrow> processRetailerLink pf originalLink giftName = Inr (js ''#'')"
  by (cases originalLink) (auto simp: processRetailerLink_def)

lemma processRetailerLink_blank:
  "js_trim link = [] \<Longrightarrow> processRetailerLink pf (JStr link) giftName = Inr (js ''#'')"
  by (simp add: processRetailerLink_def)

lemma processRetailerLink_raises:
  "js_trim link \<noteq> [] \<Longrightarrow> searchTerm giftName = Inl e \<Longrightarrow>
   processRetailerLink pf (JStr link) giftName = Inl e"
  by (simp add: processRetailerLink_def)

lemma processRetailerLink_invalid_url:
  "js_trim link \<noteq> [] \<Longrightarrow> searchTerm giftName = Inr q \<Longrightarrow> url_hostname pf link = None \<Longrightarrow>
   processRetailerLink pf (JStr link) giftName = Inr (js ''#'')"
  by (simp add: processRetailerLink_def)

lemma processRetailerLink_dispatch:
  "js_trim link \<noteq> [] \<Longrightarrow> searchTerm giftName = Inr q \<Longrightarrow> url_hostname pf link = Some hostname \<Longrightarrow>
   processRetailerLink pf (JStr link) giftName =
     (if list_ex (\<lambda>domain. js_includes hostname domain) amazonDomains then
        Inr (js ''https://'' @ hostname @ js ''/s?k='' @ q @ js ''&tag='' @ AMAZON_ASSOCIATE_TAG)
      else if js_includes hostname (js ''etsy.com'') then
        Inr (js ''https://www.etsy.com/search?q='' @ q)
      else if js_includes hostname (js ''target.com'') then
        Inr (js ''https://www.target.com/s?searchTerm='' @ q)
      else if js_includes hostname (js ''bestbuy.com'') then
        Inr (js ''https://www.bestbuy.com/site/searchpage.jsp?st='' @ q)
      else Inr link)"
  by (simp add: processRetailerLink_def)

lemma processRetailerLink_raises_iff:
  "processRetailerLink pf originalLink giftName = Inl e \<longleftrightarrow>
     (\<exists>link. originalLink = JStr link \<and> js_trim link \<noteq> [] \<and> searchTerm giftName = Inl e)"
  by (cases originalLink)
     (auto simp: processRetailerLink_def split: sum.splits option.splits if_splits)

text \<open>
  When the Link Rewriter raises: exactly when the link is a string that is not blank and
  the gift name cannot be encoded; for a gift name that is a string, exactly when it
  holds a lone surrogate.
\<close>

lemma unescaped_not_surrogate:
  "uri_unescaped c \<Longrightarrow> \<not> trailing_surrogate c \<and> \<not> leading_surrogate c"
  unfolding uri_unescaped_def trailing_surrogate_def leading_surrogate_def word_le_nat_alt
  by auto

lemma prepend_Inr_iff: "(\<exists>q. prepend s r = Inr q) \<longleftrightarrow> (\<exists>q. r = Inr q)"
  by (cases r) (simp_all add: prepend_def)

lemma encodeURIComponent_returns_iff:
  "(\<exists>q. encodeURIComponent s = Inr q) \<longleftrightarrow> well_formed s"
proof (induction s rule: encodeURIComponent.induct)
  case 1
  show ?case by simp
next
  case (2 c cs)
  show ?case
  proof (cases "uri_unescaped c")
    case True
    with 2 unescaped_not_surrogate [OF True] show ?thesis
      by (simp add: prepend_Inr_iff)
  next
    case False
    with 2 show ?thesis
      by (cases cs) (simp_all add: prepend_Inr_iff)
  qed
qed

lemma encodeURIComponent_raises_iff:
  "encodeURIComponent s = Inl e \<longleftrightarrow> \<not> well_formed s \<and> e = URIError"
proof -
  have "x = URIError" if "encodeURIComponent s = Inl x" for x
    using that
    by (induction s arbitrary: x rule: encodeURIComponent.induct)
       (auto simp: prepend_def split: if_splits list.splits sum.splits)
  then show ?thesis
    using encodeURIComponent_returns_iff [of s]
    by (cases "encodeURIComponent s") auto
qed

lemma searchTerm_string:
  "searchTerm (JStr name) = encodeURIComponent name"
  by (cases "name = []") (simp_all add: searchTerm_def)

lemma rewriter_raises_iff_lone_surrogate:
  "processRetailerLink pf (JStr link) (JStr name) = Inl e \<longleftrightarrow>
     js_trim link \<noteq> [] \<and> \<not> well_formed name \<and> e = URIError"
  by (simp add: processRetailerLink_raises_iff searchTerm_string encodeURIComponent_raises_iff)

text \<open>
  A gift name that is not a string can raise as well: a parsed object with an own
  property \<open>toString\<close> cannot be converted to a string, and the TypeError of the
  conversion leaves the function in the same way.
\<close>

lemma rewriter_raises_on_object_name:
  "processRetailerLink pf (JStr (js ''not a url'')) (JObj [(js ''toString'', JNull)]) =
     Inl TypeError"
  by (simp add: processRetailerLink_def js_def js_trim_def js_whitespace_def searchTerm_def)

text \<open>
  The Amazon case for the gift names that can be encoded.  For a link that the URL parser
  accepts (a browser accepts no blank string) and whose hostname contains one of the
  Amazon domains, the Link Rewriter returns \<open>https://<hostname>/s?k=<q>&tag=realstory-20\<close>,
  where \<open>q\<close> is the URL-encoded gift name.  Nothing is asked of the other retailers'
  names: the Amazon case is decided first, whatever else the hostname or the link
  contains.
\<close>

lemma amazon_search_link:
  assumes "url_hostname pf link = Some hostname"
    and "js_trim link \<noteq> []"
    and "\<exists>domain \<in> set amazonDomains. js_includes hostname domain"
    and "searchTerm giftName = Inr q"
  shows "processRetailerLink pf (JStr link) giftName =
           Inr (js ''https://'' @ hostname @ js ''/s?k='' @ q @ js ''&tag=realstory-20'')"
  using assms
  by (simp add: processRetailerLink_dispatch list_ex_iff AMAZON_ASSOCIATE_TAG_def js_def)

lemma sample_trim:
  "js_trim (js ''https://etsy.com.amazon.co.uk/target.com'') \<noteq> []"
  "js_trim (js ''https://amazon.com.evil.example/x'') \<noteq> []"
  "js_trim (js ''https://www.amazon.com/dp/B000123'') \<noteq> []"
  "js_trim (js ''https://www.etsy.com/listing/1'') \<noteq> []"
  "js_trim (js ''https://www.target.com/p/2'') \<noteq> []"
  "js_trim (js ''https://www.bestbuy.com/site/3'') \<noteq> []"
  "js_trim (js ''https://brandsite.example/product/123'') \<noteq> []"
  by (simp_all add: js_trim_def js_def js_whitespace_def)

lemma sample_hostname_values:
  "url_hostname sample_platform (js ''https://etsy.com.amazon.co.uk/target.com'') = Some (js ''etsy.com.amazon.co.uk'')"
  "url_hostname sample_platform (js ''https://amazon.com.evil.example/x'') = Some (js ''amazon.com.evil.example'')"
  "url_hostname sample_platform (js ''https://www.amazon.com/dp/B000123'') = Some (js ''www.amazon.com'')"
  "url_hostname sample_platform (js ''https://www.etsy.com/listing/1'') = Some (js ''www.etsy.com'')"
  "url_hostname sample_platform (js ''https://www.target.com/p/2'') = Some (js ''www.target.com'')"
  "url_hostname sample_platform (js ''https://www.bestbuy.com/site/3'') = Some (js ''www.bestbuy.com'')"
  "url_hostname sample_platform (js ''https://brandsite.example/product/123'') = Some (js ''brandsite.example'')"
  by (simp_all add: sample_platform_def sample_hostnames_def js_def)

lemma searchTerm_tea_pot: "searchTerm (JStr (js ''Tea pot'')) = Inr (js ''Tea%20pot'')"
  by (simp add: searchTerm_def js_def uri_unescaped_def trailing_surrogate_def leading_surrogate_def
      prepend_def percent_escape_def utf8_octets_def hex_digit_def)

lemma sample_includes:
  "\<exists>domain \<in> set amazonDomains. js_includes (js ''etsy.com.amazon.co.uk'') domain"
  "js_includes (js ''etsy.com.amazon.co.uk'') (js ''etsy.com'')"
  "\<exists>domain \<in> set amazonDomains. js_includes (js ''amazon.com.evil.example'') domain"
  "\<exists>domain \<in> set amazonDomains. js_includes (js ''www.amazon.com'') domain"
  by (simp_all add: amazonDomains_def js_includes_def js_def sublist_code)

lemma sample_excludes:
  "\<not> (\<exists>domain \<in> set amazonDomains. js_includes (js ''www.etsy.com'') domain)"
  "\<not> (\<exists>domain \<in> set amazonDomains. js_includes (js ''www.target.com'') domain)"
  "\<not> (\<exists>domain \<in> set amazonDomains. js_includes (js ''www.bestbuy.com'') domain)"
  "\<not> (\<exists>domain \<in> set amazonDomains. js_includes (js ''brandsite.example'') domain)"
  by (simp_all add: amazonDomains_def js_includes_def js_def sublist_code)

text \<open>
  An instance: the hostname \<open>etsy.com.amazon.co.uk\<close> also contains \<open>etsy.com\<close>, and the
  path of the link contains \<open>target.com\<close>.
\<close>

lemma amazon_search_link_instance:
  "processRetailerLink sample_platform (JStr (js ''https://etsy.com.amazon.co.uk/target.com''))
     (JStr (js ''Tea pot'')) =
   Inr (js ''https://etsy.com.amazon.co.uk/s?k=Tea%20pot&tag=realstory-20'')"
  using amazon_search_link [OF sample_hostname_values(1) sample_trim(1) sample_includes(1)
      searchTerm_tea_pot]
  by (simp add: js_def)

text \<open>
  Claim C5 says that every valid link whose hostname matches an Amazon domain is rewritten
  to the Amazon search link, and it puts no condition on the gift name.  The link
  \<open>https://www.amazon.com/dp/B000123\<close> parses, its hostname \<open>www.amazon.com\<close> contains
  \<open>amazon.com\<close>, and with a gift name that is a lone surrogate the function raises a
  URIError before the hostname is looked at: no search link is returned.
  (\<open>amazon_search_link\<close> above is the claim for the gift names that can be encoded.)
\<close>

theorem amazon_link_raises_on_lone_surrogate:
  "url_hostname sample_platform (js ''https://www.amazon.com/dp/B000123'') =
     Some (js ''www.amazon.com'')
   \<and> (\<exists>domain \<in> set amazonDomains. js_includes (js ''www.amazon.com'') domain)
   \<and> processRetailerLink sample_platform (JStr (js ''https://www.amazon.com/dp/B000123''))
       (JStr [0xD800]) = Inl URIError"
proof -
  have raised: "processRetailerLink sample_platform
      (JStr (js ''https://www.amazon.com/dp/B000123'')) (JStr [0xD800]) = Inl URIError"
    by (simp add: processRetailerLink_def js_def js_trim_def js_whitespace_def searchTerm_def
         uri_unescaped_def trailing_surrogate_def leading_surrogate_def)
  show ?thesis
    by (rule conjI [OF sample_hostname_values(3) conjI [OF sample_includes(4) raised]])
qed

text \<open>
  Claim C4 says that the Link Rewriter never raises and that a string which fails URL
  parsing, such as \<open>not a url\<close>, gives the sentinel.  The call of \<open>encodeURIComponent\<close>
  stands before the \<open>try\<close> block, so with any link that is not blank and a gift name
  that holds a lone surrogate the function raises a URIError, whatever the URL parser
  does.  (\<open>processRetailerLink_raises_iff\<close> above gives all the inputs on which the
  function raises: a link that is a string and not blank, with a gift name whose
  conversion or encoding throws; \<open>sentinel_iff\<close> below gives the inputs on which it
  returns the sentinel.)
\<close>

theorem rewriter_raises_on_lone_surrogate:
  "processRetailerLink pf (JStr (js ''not a url'')) (JStr [0xD800]) = Inl URIError"
  by (simp add: processRetailerLink_def js_def js_trim_def js_whitespace_def searchTerm_def
       uri_unescaped_def trailing_surrogate_def leading_surrogate_def)

text \<open>
  Claim C6 says that a link to an unknown retailer is returned unchanged for any gift
  name.  The gift name is encoded before the hostname is looked at, so a name that ends in
  the first half of a surrogate pair makes the function raise a URIError instead of
  returning the link.  (\<open>pass_through_unknown_host\<close> below is the claim for the gift
  names that can be encoded.)
\<close>

theorem pass_through_raises_on_cut_surrogate_pair:
  "processRetailerLink pf (JStr (js ''https://brandsite.example/product/123''))
     (JStr (js ''Mug '' @ [0xD83D])) = Inl URIError"
  by (simp add: processRetailerLink_def js_def js_trim_def js_whitespace_def searchTerm_def
       uri_unescaped_def trailing_surrogate_def leading_surrogate_def prepend_def)

lemma sentinel_iff:
  assumes blank_fails: "\<And>s. js_trim s = [] \<Longrightarrow> url_hostname pf s = None"
    and hash_fails: "url_hostname pf (js ''#'') = None"
    and returns: "processRetailerLink pf originalLink giftName = Inr r"
  shows "r = js ''#'' \<longleftrightarrow>
           (\<forall>s. originalLink \<noteq> JStr s) \<or> originalLink = JStr []
           \<or> (\<exists>s. originalLink = JStr s \<and> url_hostname pf s = None)"
proof (cases originalLink)
  case (JStr link)
  show ?thesis
  proof (cases "js_trim link = []")
    case True
    with JStr returns blank_fails [of link] show ?thesis
      by (simp add: processRetailerLink_def)
  next
    case False
    then have nonempty: "link \<noteq> []"
      by (auto simp: js_trim_def)
    from False JStr returns obtain q where q: "searchTerm giftName = Inr q"
      by (cases "searchTerm giftName") (simp_all add: processRetailerLink_def)
    show ?thesis
    proof (cases "url_hostname pf link")
      case None
      with False JStr q returns show ?thesis
        by (simp add: processRetailerLink_def)
    next
      case (Some hostname)
      have "link \<noteq> js ''#''"
        using Some hash_fails by auto
      with False JStr q Some returns nonempty show ?thesis
        by (auto simp: processRetailerLink_dispatch js_def split: if_splits)
    qed
  qed
qed (use returns in \<open>auto simp: processRetailerLink_def\<close>)

lemma pass_through_unknown_host:
  assumes "url_hostname pf link = Some hostname"
    and "js_trim link \<noteq> []"
    and "\<not> (\<exists>domain \<in> set amazonDomains. js_includes hostname domain)"
    and "\<not> js_includes hostname (js ''etsy.com'')"
    and "\<not> js_includes hostname (js ''target.com'')"
    and "\<not> js_includes hostname (js ''bestbuy.com'')"
    and "searchTerm giftName = Inr q"
  shows "processRetailerLink pf (JStr link) giftName = Inr link"
  using assms by (simp add: processRetailerLink_dispatch list_ex_iff)

text \<open>
  Claim C10, as amended.  The dispatch is by substring of the parsed hostname, in the
  order Amazon, Etsy, Target, Best Buy: a hostname that contains an Amazon domain gives
  the Amazon search link on that whole hostname with the tag; a hostname that contains
  \<open>etsy.com\<close>, \<open>target.com\<close> or \<open>bestbuy.com\<close> gives that retailer's fixed search link
  when no retailer earlier in the order matches.  \<open>q\<close> is the URL-encoded gift name.
\<close>

theorem hostname_substring_dispatch:
  assumes "url_hostname pf link = Some hostname"
    and "js_trim link \<noteq> []"
    and "searchTerm giftName = Inr q"
  shows "((\<exists>domain \<in> set amazonDomains. js_includes hostname domain) \<longrightarrow>
            processRetailerLink pf (JStr link) giftName =
              Inr (js ''https://'' @ hostname @ js ''/s?k='' @ q @ js ''&tag=realstory-20''))
       \<and> (\<not> (\<exists>domain \<in> set amazonDomains. js_includes hostname domain)
            \<and> js_includes hostname (js ''etsy.com'') \<longrightarrow>
            processRetailerLink pf (JStr link) giftName =
              Inr (js ''https://www.etsy.com/search?q='' @ q))
       \<and> (\<not> (\<exists>domain \<in> set amazonDomains. js_includes hostname domain)
            \<and> \<not> js_includes hostname (js ''etsy.com'')
            \<and> js_includes hostname (js ''target.com'') \<longrightarrow>
            processRetailerLink pf (JStr link) giftName =
              Inr (js ''https://www.target.com/s?searchTerm='' @ q))
       \<and> (\<not> (\<exists>domain \<in> set amazonDomains. js_includes hostname domain)
            \<and> \<not> js_includes hostname (js ''etsy.com'')
            \<and> \<not> js_includes hostname (js ''target.com'')
            \<and> js_includes hostname (js ''bestbuy.com'') \<longrightarrow>
            processRetailerLink pf (JStr link) giftName =
              Inr (js ''https://www.bestbuy.com/site/searchpage.jsp?st='' @ q))"
  using assms
  by (simp add: processRetailerLink_dispatch list_ex_iff AMAZON_ASSOCIATE_TAG_def js_def)

lemma sample_retailers:
  "js_includes (js ''www.etsy.com'') (js ''etsy.com'')"
  "\<not> js_includes (js ''www.target.com'') (js ''etsy.com'')"
  "js_includes (js ''www.target.com'') (js ''target.com'')"
  "\<not> js_includes (js ''www.bestbuy.com'') (js ''etsy.com'')"
  "\<not> js_includes (js ''www.bestbuy.com'') (js ''target.com'')"
  "js_includes (js ''www.bestbuy.com'') (js ''bestbuy.com'')"
  by (simp_all add: js_includes_def js_def sublist_code)

text \<open>One instance for each of the four cases, the first with \<open>amazon.com.evil.example\<close>.\<close>

theorem hostname_substring_dispatch_witness:
  "processRetailerLink sample_platform (JStr (js ''https://amazon.com.evil.example/x''))
     (JStr (js ''Tea pot'')) =
     Inr (js ''https://amazon.com.evil.example/s?k=Tea%20pot&tag=realstory-20'')
   \<and> processRetailerLink sample_platform (JStr (js ''https://www.etsy.com/listing/1''))
       (JStr (js ''Tea pot'')) = Inr (js ''https://www.etsy.com/search?q=Tea%20pot'')
   \<and> processRetailerLink sample_platform (JStr (js ''https://www.target.com/p/2''))
       (JStr (js ''Tea pot'')) = Inr (js ''https://www.target.com/s?searchTerm=Tea%20pot'')
   \<and> processRetailerLink sample_platform (JStr (js ''https://www.bestbuy.com/site/3''))
       (JStr (js ''Tea pot'')) =
       Inr (js ''https://www.bestbuy.com/site/searchpage.jsp?st=Tea%20pot'')"
  using hostname_substring_dispatch [OF sample_hostname_values(2) sample_trim(2) searchTerm_tea_pot]
    hostname_substring_dispatch [OF sample_hostname_values(4) sample_trim(4) searchTerm_tea_pot]
    hostname_substring_dispatch [OF sample_hostname_values(5) sample_trim(5) searchTerm_tea_pot]
    hostname_substring_dispatch [OF sample_hostname_values(6) sample_trim(6) searchTerm_tea_pot]
    sample_includes(3) sample_excludes sample_retailers
  by (simp add: js_def)

lemma sample_overlap_rewrite:
  "processRetailerLink sample_platform (JStr (js ''https://etsy.com.amazon.co.uk/target.com''))
     (JStr (js ''Tea pot'')) =
   Inr (js ''https://etsy.com.amazon.co.uk/s?k=Tea%20pot&tag=realstory-20'')"
proof -
  note processRetailerLink_dispatch [OF sample_trim(1) searchTerm_tea_pot sample_hostname_values(1)]
  then show ?thesis
    using sample_includes(1) by (simp add: list_ex_iff AMAZON_ASSOCIATE_TAG_def js_def)
qed

text \<open>
  Claim C10 as first stated: any hostname that contains \<open>etsy.com\<close> is rewritten to the
  Etsy search link.  The hostname \<open>etsy.com.amazon.co.uk\<close> contains it and is rewritten
  to the Amazon search link.
\<close>

theorem etsy_substring_counterexample:
  "url_hostname sample_platform (js ''https://etsy.com.amazon.co.uk/target.com'') =
     Some (js ''etsy.com.amazon.co.uk'')
   \<and> js_includes (js ''etsy.com.amazon.co.uk'') (js ''etsy.com'')
   \<and> processRetailerLink sample_platform (JStr (js ''https://etsy.com.amazon.co.uk/target.com''))
       (JStr (js ''Tea pot'')) =
       Inr (js ''https://etsy.com.amazon.co.uk/s?k=Tea%20pot&tag=realstory-20'')
   \<and> processRetailerLink sample_platform (JStr (js ''https://etsy.com.amazon.co.uk/target.com''))
       (JStr (js ''Tea pot'')) \<noteq> Inr (js ''https://www.etsy.com/search?q=Tea%20pot'')"
proof -
  have "js ''https://etsy.com.amazon.co.uk/s?k=Tea%20pot&tag=realstory-20''
          \<noteq> js ''https://www.etsy.com/search?q=Tea%20pot''"
    by (simp add: js_def)
  then show ?thesis
    by (simp add: sample_overlap_rewrite sample_hostname_values(1) sample_includes(2))
qed


section \<open>Properties of the Prompt Builder\<close>

lemma js_join_snoc: "xs \<noteq> [] \<Longrightarrow> js_join sep (xs @ [x]) = js_join sep xs @ sep @ x"
  by (induction sep xs rule: js_join.induct) simp_all

lemma criteriaParts_clauses:
  "criteriaParts c =
     js ''I need a gift suggestion for someone.'' #
     present_clauses
       [(occasion c \<noteq> [], js ''The occasion is '' @ occasion c @ js ''.''),
        (relationship c \<noteq> [], js ''They are my '' @ relationship c @ js ''.''),
        (age c \<noteq> [], js ''They are '' @ age c @ js '' years old.''),
        (gender c \<noteq> [], js ''Their gender is '' @ gender c @ js ''.''),
        (notableEvents c \<noteq> [],
         js ''Notable events in their life include '' @ notableEvents c @ js ''.''),
        (interests c \<noteq> [], js ''They are interested in '' @ interests c @ js ''.'')]"
  by (simp add: criteriaParts_def push_if_def present_clauses_def)

lemma criteriaParts_ignores_prices:
  "criteriaParts (c\<lparr>minPrice := lo, maxPrice := hi\<rparr>) = criteriaParts c"
  by (simp add: criteriaParts_def)

lemma priceRangeString_empty_iff:
  "priceRangeString c = [] \<longleftrightarrow> minPrice c = [] \<and> maxPrice c = []"
  by (simp add: priceRangeString_def js_def)


lemma priceRangeString_cases:
  "minPrice c \<noteq> [] \<Longrightarrow> maxPrice c \<noteq> [] \<Longrightarrow>
     priceRangeString c = js ''between $'' @ minPrice c @ js '' and $'' @ maxPrice c"
  "minPrice c \<noteq> [] \<Longrightarrow> maxPrice c = [] \<Longrightarrow> priceRangeString c = js ''above $'' @ minPrice c"
  "minPrice c = [] \<Longrightarrow> maxPrice c \<noteq> [] \<Longrightarrow> priceRangeString c = js ''up to $'' @ maxPrice c"
  "minPrice c = [] \<Longrightarrow> maxPrice c = [] \<Longrightarrow> priceRangeString c = []"
  by (simp_all add: priceRangeString_def)

lemma price_clause_prefix:
  "js ''The price range should be '' @ js ''between $'' @ r =
     js ''The price range should be between $'' @ r"
  "js ''The price range should be '' @ js ''above $'' @ r =
     js ''The price range should be above $'' @ r"
  "js ''The price range should be '' @ js ''up to $'' @ r =
     js ''The price range should be up to $'' @ r"
  by (simp_all add: js_def)

text \<open>
  Claim C7.  The price clause of the gift prompt is the last clause and has three
  templates: both prices present, only the minimum, only the maximum.  With neither price
  the prompt is the join of the other clauses alone.
\<close>

theorem price_clause_templates:
  "(minPrice c \<noteq> [] \<and> maxPrice c \<noteq> [] \<longrightarrow>
      mainPrompt c =
        js_join (js '' '')
          (criteriaParts c @
           [js ''The price range should be between $'' @ minPrice c @ js '' and $''
              @ maxPrice c @ js ''.''])
        @ mainPrompt_suffix)
   \<and> (minPrice c \<noteq> [] \<and> maxPrice c = [] \<longrightarrow>
      mainPrompt c =
        js_join (js '' '')
          (criteriaParts c @ [js ''The price range should be above $'' @ minPrice c @ js ''.''])
        @ mainPrompt_suffix)
   \<and> (minPrice c = [] \<and> maxPrice c \<noteq> [] \<longrightarrow>
      mainPrompt c =
        js_join (js '' '')
          (criteriaParts c @ [js ''The price range should be up to $'' @ maxPrice c @ js ''.''])
        @ mainPrompt_suffix)
   \<and> (minPrice c = [] \<and> maxPrice c = [] \<longrightarrow>
      mainPrompt c = js_join (js '' '') (criteriaParts c) @ mainPrompt_suffix)"
  by (simp add: mainPrompt_def promptParts_def push_if_def priceRangeString_empty_iff
        priceRangeString_cases price_clause_prefix)

text \<open>The four cases at the sample criteria, with prices 10 and 50.\<close>

theorem price_clause_templates_witness:
  "mainPrompt (sample_criteria\<lparr>minPrice := js ''10'', maxPrice := js ''50''\<rparr>) =
     js_join (js '' '')
       [js ''I need a gift suggestion for someone.'', js ''The occasion is Birthday.'',
        js ''They are 30 years old.'', js ''The price range should be between $10 and $50.'']
     @ mainPrompt_suffix
   \<and> mainPrompt (sample_criteria\<lparr>minPrice := js ''10'', maxPrice := []\<rparr>) =
     js_join (js '' '')
       [js ''I need a gift suggestion for someone.'', js ''The occasion is Birthday.'',
        js ''They are 30 years old.'', js ''The price range should be above $10.'']
     @ mainPrompt_suffix
   \<and> mainPrompt (sample_criteria\<lparr>minPrice := [], maxPrice := js ''50''\<rparr>) =
     js_join (js '' '')
       [js ''I need a gift suggestion for someone.'', js ''The occasion is Birthday.'',
        js ''They are 30 years old.'', js ''The price range should be up to $50.'']
     @ mainPrompt_suffix
   \<and> mainPrompt (sample_criteria\<lparr>minPrice := [], maxPrice := []\<rparr>) =
     js_join (js '' '')
       [js ''I need a gift suggestion for someone.'', js ''The occasion is Birthday.'',
        js ''They are 30 years old.'']
     @ mainPrompt_suffix"
proof -
  have parts: "criteriaParts (sample_criteria\<lparr>minPrice := lo, maxPrice := hi\<rparr>) =
      [js ''I need a gift suggestion for someone.'', js ''The occasion is Birthday.'',
       js ''They are 30 years old.'']" for lo hi
    by (simp add: criteriaParts_def push_if_def sample_criteria_def js_def)
  have prices: "js ''10'' \<noteq> []" "js ''50'' \<noteq> []"
    by (simp_all add: js_def)
  have clauses:
    "js ''The price range should be between $'' @ js ''10'' @ js '' and $'' @ js ''50'' @ js ''.''
       = js ''The price range should be between $10 and $50.''"
    "js ''The price range should be above $'' @ js ''10'' @ js ''.''
       = js ''The price range should be above $10.''"
    "js ''The price range should be up to $'' @ js ''50'' @ js ''.''
       = js ''The price range should be up to $50.''"
    by (simp_all add: js_def)
  show ?thesis
    using price_clause_templates [of "sample_criteria\<lparr>minPrice := js ''10'', maxPrice := js ''50''\<rparr>"]
      price_clause_templates [of "sample_criteria\<lparr>minPrice := js ''10'', maxPrice := []\<rparr>"]
      price_clause_templates [of "sample_criteria\<lparr>minPrice := [], maxPrice := js ''50''\<rparr>"]
      price_clause_templates [of "sample_criteria\<lparr>minPrice := [], maxPrice := []\<rparr>"]
    by (simp add: parts prices clauses)
qed

text \<open>
  Claim C8, as amended.  The gift prompt is the opening sentence and, joined by single
  spaces, one clause for each present field in the order occasion, relationship, age,
  gender, notableEvents, interests, price range.  The card-message prompt has one clause
  for each present field in the order occasion, relationship, age, gender, interests,
  notableEvents, and no clause for the prices.  An absent field adds nothing.
\<close>

theorem clauses_in_order:
  "mainPrompt c =
     js_join (js '' '')
       (js ''I need a gift suggestion for someone.'' #
        present_clauses
          [(occasion c \<noteq> [], js ''The occasion is '' @ occasion c @ js ''.''),
           (relationship c \<noteq> [], js ''They are my '' @ relationship c @ js ''.''),
           (age c \<noteq> [], js ''They are '' @ age c @ js '' years old.''),
           (gender c \<noteq> [], js ''Their gender is '' @ gender c @ js ''.''),
           (notableEvents c \<noteq> [],
            js ''Notable events in their life include '' @ notableEvents c @ js ''.''),
           (interests c \<noteq> [], js ''They are interested in '' @ interests c @ js ''.''),
           (\<not> (minPrice c = [] \<and> maxPrice c = []),
            js ''The price range should be '' @ priceRangeString c @ js ''.'')])
     @ mainPrompt_suffix
   \<and> fullMessagePrompt c =
     js_join (js '' '')
       (js ''Write a heartfelt and creative gift card message or a short poem.'' #
        present_clauses
          [(occasion c \<noteq> [], js ''The occasion is '' @ occasion c @ js ''.''),
           (relationship c \<noteq> [], js ''The recipient is my '' @ relationship c @ js ''.''),
           (age c \<noteq> [], js ''They are '' @ age c @ js '' years old.''),
           (gender c \<noteq> [], js ''Their gender is '' @ gender c @ js ''.''),
           (interests c \<noteq> [], js ''They are interested in '' @ interests c @ js ''.''),
           (notableEvents c \<noteq> [],
            js ''They have been busy with '' @ notableEvents c @ js ''.'')])
     @ fullMessagePrompt_suffix"
proof -
  have main: "promptParts c =
     js ''I need a gift suggestion for someone.'' #
     present_clauses
       [(occasion c \<noteq> [], js ''The occasion is '' @ occasion c @ js ''.''),
        (relationship c \<noteq> [], js ''They are my '' @ relationship c @ js ''.''),
        (age c \<noteq> [], js ''They are '' @ age c @ js '' years old.''),
        (gender c \<noteq> [], js ''Their gender is '' @ gender c @ js ''.''),
        (notableEvents c \<noteq> [],
         js ''Notable events in their life include '' @ notableEvents c @ js ''.''),
        (interests c \<noteq> [], js ''They are interested in '' @ interests c @ js ''.''),
        (\<not> (minPrice c = [] \<and> maxPrice c = []),
         js ''The price range should be '' @ priceRangeString c @ js ''.'')]"
    unfolding promptParts_def criteriaParts_clauses priceRangeString_empty_iff
    by (simp add: push_if_def present_clauses_def)
  have message: "messagePromptParts c =
     js ''Write a heartfelt and creative gift card message or a short poem.'' #
     present_clauses
       [(occasion c \<noteq> [], js ''The occasion is '' @ occasion c @ js ''.''),
        (relationship c \<noteq> [], js ''The recipient is my '' @ relationship c @ js ''.''),
        (age c \<noteq> [], js ''They are '' @ age c @ js '' years old.''),
        (gender c \<noteq> [], js ''Their gender is '' @ gender c @ js ''.''),
        (interests c \<noteq> [], js ''They are interested in '' @ interests c @ js ''.''),
        (notableEvents c \<noteq> [],
         js ''They have been busy with '' @ notableEvents c @ js ''.'')]"
    by (simp add: messagePromptParts_def push_if_def present_clauses_def)
  show ?thesis
    unfolding mainPrompt_def fullMessagePrompt_def main message by simp
qed

text \<open>
  Claim C8 as first stated gives the card-message prompt the order and the price clause
  of the gift prompt.  With interests, notable events and a minimum price set, the
  clause of the interests comes before that of the notable events, and no clause
  mentions the price.
\<close>

theorem message_prompt_order_counterexample:
  "messagePromptParts
     \<lparr>interests = js ''chess'', notableEvents = js ''a wedding'', minPrice = js ''20'',
      maxPrice = [], age = [], gender = [], relationship = [], occasion = js ''Birthday''\<rparr> =
   [js ''Write a heartfelt and creative gift card message or a short poem.'',
    js ''The occasion is Birthday.'',
    js ''They are interested in chess.'',
    js ''They have been busy with a wedding.'']"
  by (simp add: messagePromptParts_def push_if_def js_def)

section \<open>Properties of the orchestrator and the history\<close>

lemma processRetailerLink_returns:
  "searchTerm giftName = Inr q \<Longrightarrow> \<exists>r. processRetailerLink pf originalLink giftName = Inr r"
  using processRetailerLink_raises_iff [of pf originalLink giftName]
  by (cases "processRetailerLink pf originalLink giftName") auto

lemma rewrite_gift_Inr_iff:
  "rewrite_gift pf gift = Inr obj \<longleftrightarrow>
     (\<exists>link name rewritten.
        gift_property gift (js ''purchaseLink'') = Inr link
      \<and> gift_property gift (js ''name'') = Inr name
      \<and> processRetailerLink pf link name = Inr rewritten
      \<and> obj = AList.update (js ''purchaseLink'') (JStr rewritten) (own_properties gift))"
  by (auto simp: rewrite_gift_def split: sum.splits)

lemma rewritten_object_fields:
  "map_of (AList.update (js ''purchaseLink'') v obj) k =
     (if k = js ''purchaseLink'' then Some v else map_of obj k)"
  by (simp add: update_conv')

lemma gift_property_null:
  "gift_property gift k = Inl e \<longleftrightarrow> (gift = JNull \<or> gift = JUndefined) \<and> e = TypeError"
  by (cases gift) (auto simp: gift_property_def)

lemma map_gifts_Inr:
  "map_gifts pf gs = Inr objs \<Longrightarrow>
     length objs = length gs \<and> (\<forall>i < length gs. rewrite_gift pf (gs ! i) = Inr (objs ! i))"
proof (induction gs arbitrary: objs)
  case Nil
  then show ?case by simp
next
  case (Cons g gs)
  from Cons.prems obtain obj rest where
    obj: "rewrite_gift pf g = Inr obj" and rest: "map_gifts pf gs = Inr rest"
    and objs: "objs = obj # rest"
    by (auto split: sum.splits)
  from Cons.IH [OF rest] obj objs show ?case
    by (auto simp: nth_Cons split: nat.splits)
qed

lemma map_gifts_total:
  "\<forall>g \<in> set gs. \<exists>obj. rewrite_gift pf g = Inr obj \<Longrightarrow> \<exists>objs. map_gifts pf gs = Inr objs"
  by (induction gs) auto

lemma js_slice0_5: "js_slice0 xs 5 = take 5 xs"
  by (simp add: js_slice0_def)

lemma fetch_success:
  assumes "callGeminiApi (mainPrompt c) = Returned (JArr arr)"
    and "map_gifts pf (take 5 arr) = Inr published"
  shows "fetchGiftSuggestions pf callGeminiApi c st =
           st\<lparr>giftIdeas := Some published, error := None, isLoading := False,
              giftIdeasHistory := js_slice0 (giftIdeasHistory st) (historyIndex st + 1) @ [published],
              historyIndex := historyIndex st + 1\<rparr>"
  using assms
  by (simp add: fetchGiftSuggestions_def fetch_finish_def fetch_start_def processedGiftIdeas_def
        publish_and_push_def js_slice0_5)

lemma fetch_exception:
  assumes "callGeminiApi (mainPrompt c) = Returned (JArr arr)"
    and "map_gifts pf (take 5 arr) = Inl err"
  shows "fetchGiftSuggestions pf callGeminiApi c st =
           st\<lparr>giftIdeas := Some [],
              error := Some (js ''Failed to fetch gift suggestions: '' @ err_message pf err
                             @ js ''. Please try again.''),
              isLoading := False\<rparr>"
  using assms
  by (simp add: fetchGiftSuggestions_def fetch_finish_def fetch_start_def processedGiftIdeas_def
        fetch_failed_def js_slice0_5)

lemma fetch_threw:
  assumes "callGeminiApi (mainPrompt c) = Threw err"
  shows "fetchGiftSuggestions pf callGeminiApi c st =
           st\<lparr>giftIdeas := Some [],
              error := Some (js ''Failed to fetch gift suggestions: '' @ err_message pf err
                             @ js ''. Please try again.''),
              isLoading := False\<rparr>"
  using assms
  by (simp add: fetchGiftSuggestions_def fetch_finish_def fetch_start_def fetch_failed_def)

lemma fetch_non_array:
  assumes "callGeminiApi (mainPrompt c) = Returned parsedJson" and "\<not> isArray parsedJson"
  shows "fetchGiftSuggestions pf callGeminiApi c st =
           st\<lparr>giftIdeas := Some [],
              error := Some (js ''Received unexpected data format from API. Please try again.''),
              isLoading := False\<rparr>"
  using assms
  by (simp add: fetchGiftSuggestions_def fetch_finish_def fetch_start_def)

text \<open>
  Claim C1, as amended.  When the gateway returns a JSON array and, for each of its first
  five entries, \<open>purchaseLink\<close> and \<open>name\<close> can be read (the entry is not \<open>null\<close>) and the
  Link Rewriter returns, the orchestrator publishes exactly the first \<open>min 5 (length arr)\<close>
  entries in the returned order, each a copy of the entry with \<open>purchaseLink\<close> set to the
  Link Rewriter's output for its \<open>purchaseLink\<close> and \<open>name\<close>.  The published sequence is
  the one new entry at the end of the history, after the entries up to the cursor, and
  the cursor moves up by one; on an empty history the history has length 1 afterwards.
\<close>

theorem fetch_publishes_rewritten_prefix:
  assumes "callGeminiApi (mainPrompt c) = Returned (JArr arr)"
    and "\<forall>gift \<in> set (take 5 arr). \<exists>link name rewritten.
           gift_property gift (js ''purchaseLink'') = Inr link
         \<and> gift_property gift (js ''name'') = Inr name
         \<and> processRetailerLink pf link name = Inr rewritten"
  shows "\<exists>published.
           giftIdeas (fetchGiftSuggestions pf callGeminiApi c st) = Some published
         \<and> length published = min 5 (length arr)
         \<and> (\<forall>i < length published. \<exists>link name rewritten.
               gift_property (arr ! i) (js ''purchaseLink'') = Inr link
             \<and> gift_property (arr ! i) (js ''name'') = Inr name
             \<and> processRetailerLink pf link name = Inr rewritten
             \<and> published ! i =
                 AList.update (js ''purchaseLink'') (JStr rewritten) (own_properties (arr ! i)))
         \<and> giftIdeasHistory (fetchGiftSuggestions pf callGeminiApi c st) =
             js_slice0 (giftIdeasHistory st) (historyIndex st + 1) @ [published]
         \<and> historyIndex (fetchGiftSuggestions pf callGeminiApi c st) = historyIndex st + 1
         \<and> (giftIdeasHistory st = [] \<longrightarrow>
              length (giftIdeasHistory (fetchGiftSuggestions pf callGeminiApi c st)) = 1)
         \<and> error (fetchGiftSuggestions pf callGeminiApi c st) = None
         \<and> \<not> isLoading (fetchGiftSuggestions pf callGeminiApi c st)"
proof -
  from assms(2) have "\<forall>g \<in> set (take 5 arr). \<exists>obj. rewrite_gift pf g = Inr obj"
    by (fastforce simp: rewrite_gift_Inr_iff)
  then obtain published where published: "map_gifts pf (take 5 arr) = Inr published"
    using map_gifts_total by blast
  note after = fetch_success [where callGeminiApi = callGeminiApi and c = c and st = st, OF assms(1) published]
  from map_gifts_Inr [OF published]
  have len: "length published = min 5 (length arr)"
    and each: "\<forall>i < length published. rewrite_gift pf (arr ! i) = Inr (published ! i)"
    by (simp_all add: min.commute)
  have "\<forall>i < length published. \<exists>link name rewritten.
               gift_property (arr ! i) (js ''purchaseLink'') = Inr link
             \<and> gift_property (arr ! i) (js ''name'') = Inr name
             \<and> processRetailerLink pf link name = Inr rewritten
             \<and> published ! i =
                 AList.update (js ''purchaseLink'') (JStr rewritten) (own_properties (arr ! i))"
    using each by (simp add: rewrite_gift_Inr_iff)
  with len show ?thesis
    unfolding after by (intro exI [of _ published]) (simp add: js_slice0_def)
qed

lemma sample_gift_properties:
  "gift_property (sample_gift name link) (js ''purchaseLink'') = Inr (JStr link)"
  "gift_property (sample_gift name link) (js ''name'') = Inr (JStr name)"
  by (simp_all add: sample_gift_def gift_property_def js_def)

text \<open>The first fetch, with the sample criteria and a response of six gift ideas.\<close>

theorem fetch_publishes_rewritten_prefix_witness:
  "\<exists>published.
     giftIdeas (fetchGiftSuggestions sample_platform (gateway_returns sample_response)
                  sample_criteria init_state) = Some published
   \<and> length published = 5
   \<and> giftIdeasHistory (fetchGiftSuggestions sample_platform (gateway_returns sample_response)
                          sample_criteria init_state) = [published]
   \<and> historyIndex (fetchGiftSuggestions sample_platform (gateway_returns sample_response)
                      sample_criteria init_state) = 0"
proof -
  have response: "gateway_returns sample_response (mainPrompt sample_criteria) =
      Returned (JArr [sample_gift (js ''Tea pot'') (js ''https://www.amazon.com/dp/B000123''),
           sample_gift (js ''Tea pot'') (js ''https://www.etsy.com/listing/1''),
           sample_gift (js ''Tea pot'') (js ''https://www.target.com/p/2''),
           sample_gift (js ''Tea pot'') (js ''https://www.bestbuy.com/site/3''),
           sample_gift (js ''Tea pot'') (js ''https://brandsite.example/product/123''),
           sample_gift (js ''Tea pot'') (js ''not a url'')])"
    by (simp add: gateway_returns_def sample_response_def)
  note returns = processRetailerLink_returns [OF searchTerm_tea_pot, of sample_platform]
  show ?thesis
    using fetch_publishes_rewritten_prefix [where callGeminiApi = "gateway_returns sample_response"
        and c = sample_criteria and pf = sample_platform and st = init_state, OF response]
    by (simp add: sample_gift_properties returns) (auto simp: init_state_def js_slice0_def)
qed

text \<open>
  Claim C1 as first stated covers every JSON array.  For the array \<open>[null]\<close> the read of
  \<open>gift.purchaseLink\<close> raises a TypeError inside \<open>map\<close>; the \<open>catch\<close> clause sets the
  error, nothing is published and the history stays empty.
\<close>

theorem null_entry_counterexample:
  "giftIdeas (fetchGiftSuggestions sample_platform (gateway_returns (JArr [JNull]))
                sample_criteria init_state) = Some []
   \<and> giftIdeasHistory (fetchGiftSuggestions sample_platform (gateway_returns (JArr [JNull]))
                          sample_criteria init_state) = []
   \<and> historyIndex (fetchGiftSuggestions sample_platform (gateway_returns (JArr [JNull]))
                      sample_criteria init_state) = - 1
   \<and> error (fetchGiftSuggestions sample_platform (gateway_returns (JArr [JNull]))
              sample_criteria init_state) =
       Some (js ''Failed to fetch gift suggestions: Cannot read properties of null (reading 'purchaseLink'). Please try again.'')"
proof -
  have "gateway_returns (JArr [JNull]) (mainPrompt sample_criteria) = Returned (JArr [JNull])"
    by (simp add: gateway_returns_def)
  moreover have "map_gifts sample_platform (take 5 [JNull]) = Inl TypeError"
    by (simp add: rewrite_gift_def gift_property_def)
  ultimately show ?thesis
    by (simp add: fetch_exception [where callGeminiApi = "gateway_returns (JArr [JNull])"
            and c = sample_criteria]
          init_state_def err_message_def sample_platform_def sample_message_def js_def)
qed

text \<open>
  The same exception seen from the orchestrator: one gift idea whose name is a lone
  surrogate makes the whole fetch fail, and nothing is published.
\<close>

lemma lone_surrogate_name_fails_fetch:
  "error (fetchGiftSuggestions sample_platform
            (gateway_returns (JArr [sample_gift [0xD800] (js ''not a url'')]))
            sample_criteria init_state) =
     Some (js ''Failed to fetch gift suggestions: URI malformed. Please try again.'')
   \<and> giftIdeas (fetchGiftSuggestions sample_platform
            (gateway_returns (JArr [sample_gift [0xD800] (js ''not a url'')]))
            sample_criteria init_state) = Some []
   \<and> giftIdeasHistory (fetchGiftSuggestions sample_platform
            (gateway_returns (JArr [sample_gift [0xD800] (js ''not a url'')]))
            sample_criteria init_state) = []"
proof -
  have response: "gateway_returns (JArr [sample_gift [0xD800] (js ''not a url'')])
          (mainPrompt sample_criteria) =
        Returned (JArr [sample_gift [0xD800] (js ''not a url'')])"
    by (simp add: gateway_returns_def)
  have "processRetailerLink sample_platform (JStr (js ''not a url'')) (JStr [0xD800]) =
      Inl URIError"
    by (simp add: processRetailerLink_def js_def js_trim_def js_whitespace_def searchTerm_def
         uri_unescaped_def trailing_surrogate_def leading_surrogate_def)
  then have raised: "map_gifts sample_platform (take 5 [sample_gift [0xD800] (js ''not a url'')]) =
      Inl URIError"
    by (simp add: rewrite_gift_def sample_gift_properties)
  have message: "js ''Failed to fetch gift suggestions: '' @ err_message sample_platform URIError
        @ js ''. Please try again.'' =
      js ''Failed to fetch gift suggestions: URI malformed. Please try again.''"
    by (simp add: err_message_def sample_platform_def sample_message_def js_def)
  show ?thesis
    unfolding fetch_exception [where callGeminiApi =
        "gateway_returns (JArr [sample_gift [0xD800] (js ''not a url'')])"
        and c = sample_criteria, OF response raised] message
    by (simp add: init_state_def)
qed

text \<open>
  Claim C9.  When the gateway call returns a value that is not an array, the error field
  is set to a non-empty message, the history and the cursor are as before the fetch, and
  the loading flag is false again.
\<close>

theorem non_array_response_sets_error:
  assumes "callGeminiApi (mainPrompt c) = Returned parsedJson"
    and "\<not> isArray parsedJson"
  shows "error (fetchGiftSuggestions pf callGeminiApi c st) =
           Some (js ''Received unexpected data format from API. Please try again.'')
       \<and> js ''Received unexpected data format from API. Please try again.'' \<noteq> []
       \<and> giftIdeasHistory (fetchGiftSuggestions pf callGeminiApi c st) = giftIdeasHistory st
       \<and> historyIndex (fetchGiftSuggestions pf callGeminiApi c st) = historyIndex st
       \<and> \<not> isLoading (fetchGiftSuggestions pf callGeminiApi c st)"
  by (simp add: fetch_non_array [where callGeminiApi = callGeminiApi and c = c, OF assms])
     (simp add: js_def)

text \<open>An instance: the gateway returns an object.\<close>

theorem non_array_response_sets_error_witness:
  "error (fetchGiftSuggestions sample_platform
            (gateway_returns (JObj [(js ''ideas'', JArr [])])) sample_criteria init_state) =
     Some (js ''Received unexpected data format from API. Please try again.'')
   \<and> giftIdeasHistory (fetchGiftSuggestions sample_platform
        (gateway_returns (JObj [(js ''ideas'', JArr [])])) sample_criteria init_state) = []
   \<and> historyIndex (fetchGiftSuggestions sample_platform
        (gateway_returns (JObj [(js ''ideas'', JArr [])])) sample_criteria init_state) = - 1
   \<and> \<not> isLoading (fetchGiftSuggestions sample_platform
        (gateway_returns (JObj [(js ''ideas'', JArr [])])) sample_criteria init_state)"
proof -
  have "gateway_returns (JObj [(js ''ideas'', JArr [])]) (mainPrompt sample_criteria) =
      Returned (JObj [(js ''ideas'', JArr [])])"
    by (simp add: gateway_returns_def)
  moreover have "\<not> isArray (JObj [(js ''ideas'', JArr [])])"
    by simp
  ultimately show ?thesis
    using non_array_response_sets_error [of "gateway_returns (JObj [(js ''ideas'', JArr [])])"
        sample_criteria "JObj [(js ''ideas'', JArr [])]" sample_platform init_state]
    by (simp add: init_state_def)
qed


lemma push_state:
  "push entry st =
     st\<lparr>giftIdeas := Some entry,
        giftIdeasHistory := js_slice0 (giftIdeasHistory st) (historyIndex st + 1) @ [entry],
        historyIndex := historyIndex st + 1\<rparr>"
  by (simp add: push_def publish_and_push_def)

lemma push_init:
  "push e1 init_state =
     \<lparr>giftIdeas = Some e1, isLoading = False, error = None, giftIdeasHistory = [e1],
      historyIndex = 0\<rparr>"
  by (simp add: push_state init_state_def js_slice0_def)

text \<open>
  Claim C2.  In a state whose cursor lies between -1 and the last index of the history,
  a push keeps the entries up to the cursor, appends the new entry and leaves the cursor
  on the new last index.  Pushing \<open>e1\<close>, \<open>e2\<close>, \<open>e3\<close>, going back twice and pushing \<open>e4\<close>
  gives the history \<open>[e1, e4]\<close> with the cursor at 1.
\<close>

theorem push_truncates_beyond_cursor:
  assumes "- 1 \<le> historyIndex st"
    and "historyIndex st < int (length (giftIdeasHistory st))"
  shows "giftIdeasHistory (push entry st) =
           take (nat (historyIndex st + 1)) (giftIdeasHistory st) @ [entry]
       \<and> historyIndex (push entry st) = int (length (giftIdeasHistory (push entry st))) - 1
       \<and> giftIdeasHistory
           (push e4 (goBackInHistory (goBackInHistory
              (push e3 (push e2 (push e1 init_state)))))) = [e1, e4]
       \<and> historyIndex
           (push e4 (goBackInHistory (goBackInHistory
              (push e3 (push e2 (push e1 init_state)))))) = 1"
proof -
  have general: "giftIdeasHistory (push entry st) =
           take (nat (historyIndex st + 1)) (giftIdeasHistory st) @ [entry]
       \<and> historyIndex (push entry st) = int (length (giftIdeasHistory (push entry st))) - 1"
    using assms by (auto simp: push_state js_slice0_def)
  have three: "push e3 (push e2 (push e1 init_state)) =
     \<lparr>giftIdeas = Some e3, isLoading = False, error = None, giftIdeasHistory = [e1, e2, e3],
      historyIndex = 2\<rparr>"
    by (simp add: push_init) (simp add: push_state js_slice0_def)
  have twice_back: "goBackInHistory (goBackInHistory (push e3 (push e2 (push e1 init_state)))) =
     \<lparr>giftIdeas = Some e1, isLoading = False, error = None, giftIdeasHistory = [e1, e2, e3],
      historyIndex = 0\<rparr>"
    unfolding three by (simp add: goBackInHistory_def js_index_def)
  have "push e4 (goBackInHistory (goBackInHistory (push e3 (push e2 (push e1 init_state))))) =
     \<lparr>giftIdeas = Some e4, isLoading = False, error = None, giftIdeasHistory = [e1, e4],
      historyIndex = 1\<rparr>"
    unfolding twice_back by (simp add: push_state js_slice0_def)
  with general show ?thesis
    by simp
qed

text \<open>An instance: the initial state, and four sample entries.\<close>

theorem push_truncates_beyond_cursor_witness:
  "giftIdeasHistory (push (sample_entry (js ''Mug'')) init_state) = [sample_entry (js ''Mug'')]
   \<and> historyIndex (push (sample_entry (js ''Mug'')) init_state) = 0
   \<and> giftIdeasHistory
       (push (sample_entry (js ''Kite'')) (goBackInHistory (goBackInHistory
          (push (sample_entry (js ''Lamp'')) (push (sample_entry (js ''Book''))
             (push (sample_entry (js ''Mug'')) init_state)))))) =
       [sample_entry (js ''Mug''), sample_entry (js ''Kite'')]
   \<and> historyIndex
       (push (sample_entry (js ''Kite'')) (goBackInHistory (goBackInHistory
          (push (sample_entry (js ''Lamp'')) (push (sample_entry (js ''Book''))
             (push (sample_entry (js ''Mug'')) init_state)))))) = 1"
  using push_truncates_beyond_cursor [of init_state "sample_entry (js ''Mug'')"
      "sample_entry (js ''Kite'')" "sample_entry (js ''Lamp'')" "sample_entry (js ''Book'')"
      "sample_entry (js ''Mug'')"]
  by (simp add: init_state_def)

lemma goBack_moves:
  "0 < historyIndex st \<Longrightarrow>
   goBackInHistory st =
     st\<lparr>historyIndex := historyIndex st - 1,
        giftIdeas := js_index (giftIdeasHistory st) (historyIndex st - 1),
        error := None\<rparr>"
  by (simp add: goBackInHistory_def Let_def)

lemma goBack_noop: "historyIndex st \<le> 0 \<Longrightarrow> goBackInHistory st = st"
  by (simp add: goBackInHistory_def)

lemma goForward_moves:
  "historyIndex st < int (length (giftIdeasHistory st)) - 1 \<Longrightarrow>
   goForwardInHistory st =
     st\<lparr>historyIndex := historyIndex st + 1,
        giftIdeas := js_index (giftIdeasHistory st) (historyIndex st + 1),
        error := None\<rparr>"
  by (simp add: goForwardInHistory_def Let_def)

lemma goForward_noop:
  "int (length (giftIdeasHistory st)) - 1 \<le> historyIndex st \<Longrightarrow> goForwardInHistory st = st"
  by (simp add: goForwardInHistory_def)

text \<open>
  Claim C3, as amended.  In a state whose cursor lies between -1 and the last index of
  the history: after a push, after a \<open>goBackInHistory\<close> with the cursor above 0, and
  after a \<open>goForwardInHistory\<close> with the cursor below the last index, the displayed gift
  ideas are the history entry at the cursor.  A \<open>goBackInHistory\<close> with the cursor at 0
  or below and a \<open>goForwardInHistory\<close> with the cursor on the last index change nothing.
\<close>

theorem displayed_is_entry_at_cursor:
  assumes "- 1 \<le> historyIndex st"
    and "historyIndex st < int (length (giftIdeasHistory st))"
  shows "giftIdeas (push entry st) =
           js_index (giftIdeasHistory (push entry st)) (historyIndex (push entry st))
       \<and> (0 < historyIndex st \<longrightarrow>
            giftIdeas (goBackInHistory st) =
              js_index (giftIdeasHistory (goBackInHistory st)) (historyIndex (goBackInHistory st))
          \<and> giftIdeas (goBackInHistory st) \<noteq> None)
       \<and> (historyIndex st < int (length (giftIdeasHistory st)) - 1 \<longrightarrow>
            giftIdeas (goForwardInHistory st) =
              js_index (giftIdeasHistory (goForwardInHistory st))
                (historyIndex (goForwardInHistory st))
          \<and> giftIdeas (goForwardInHistory st) \<noteq> None)
       \<and> (historyIndex st \<le> 0 \<longrightarrow> goBackInHistory st = st)
       \<and> (int (length (giftIdeasHistory st)) - 1 \<le> historyIndex st \<longrightarrow>
            goForwardInHistory st = st)"
proof -
  have "giftIdeas (push entry st) =
           js_index (giftIdeasHistory (push entry st)) (historyIndex (push entry st))"
    using assms by (auto simp: push_state js_slice0_def js_index_def nth_append)
  moreover have "giftIdeas (goBackInHistory st) =
        js_index (giftIdeasHistory (goBackInHistory st)) (historyIndex (goBackInHistory st))
      \<and> giftIdeas (goBackInHistory st) \<noteq> None"
    if "0 < historyIndex st"
    using that assms by (simp add: goBack_moves js_index_def)
  moreover have "giftIdeas (goForwardInHistory st) =
        js_index (giftIdeasHistory (goForwardInHistory st)) (historyIndex (goForwardInHistory st))
      \<and> giftIdeas (goForwardInHistory st) \<noteq> None"
    if "historyIndex st < int (length (giftIdeasHistory st)) - 1"
    using that assms by (simp add: goForward_moves js_index_def)
  ultimately show ?thesis
    using goBack_noop [of st] goForward_noop [of st] by blast
qed

text \<open>
  An instance: a history of three entries with the cursor on the second, and the initial
  state for the two calls that change nothing.
\<close>

theorem displayed_is_entry_at_cursor_witness:
  "giftIdeas (push (sample_entry (js ''Kite'')) sample_history_state) =
      Some (sample_entry (js ''Kite''))
   \<and> js_index (giftIdeasHistory (push (sample_entry (js ''Kite'')) sample_history_state))
        (historyIndex (push (sample_entry (js ''Kite'')) sample_history_state)) =
      Some (sample_entry (js ''Kite''))
   \<and> giftIdeas (goBackInHistory sample_history_state) = Some (sample_entry (js ''Mug''))
   \<and> js_index (giftIdeasHistory (goBackInHistory sample_history_state))
        (historyIndex (goBackInHistory sample_history_state)) = Some (sample_entry (js ''Mug''))
   \<and> giftIdeas (goForwardInHistory sample_history_state) = Some (sample_entry (js ''Lamp''))
   \<and> js_index (giftIdeasHistory (goForwardInHistory sample_history_state))
        (historyIndex (goForwardInHistory sample_history_state)) =
      Some (sample_entry (js ''Lamp''))
   \<and> goBackInHistory init_state = init_state
   \<and> goForwardInHistory init_state = init_state"
  using displayed_is_entry_at_cursor [of sample_history_state "sample_entry (js ''Kite'')"]
    displayed_is_entry_at_cursor [of init_state "sample_entry (js ''Kite'')"]
  by (simp add: sample_history_state_def push_state goBack_moves goForward_moves js_index_def)
     (simp add: init_state_def)

lemma sample_first_fetch:
  "\<exists>published.
     length published = 5
   \<and> fetchGiftSuggestions sample_platform (gateway_returns sample_response) sample_criteria
       init_state =
       \<lparr>giftIdeas = Some published, isLoading = False, error = None,
        giftIdeasHistory = [published], historyIndex = 0\<rparr>"
proof -
  let ?arr = "[sample_gift (js ''Tea pot'') (js ''https://www.amazon.com/dp/B000123''),
           sample_gift (js ''Tea pot'') (js ''https://www.etsy.com/listing/1''),
           sample_gift (js ''Tea pot'') (js ''https://www.target.com/p/2''),
           sample_gift (js ''Tea pot'') (js ''https://www.bestbuy.com/site/3''),
           sample_gift (js ''Tea pot'') (js ''https://brandsite.example/product/123''),
           sample_gift (js ''Tea pot'') (js ''not a url'')]"
  have response: "gateway_returns sample_response (mainPrompt sample_criteria) =
      Returned (JArr ?arr)"
    by (simp add: gateway_returns_def sample_response_def)
  have "\<forall>g \<in> set (take 5 ?arr). \<exists>obj. rewrite_gift sample_platform g = Inr obj"
    using processRetailerLink_returns [OF searchTerm_tea_pot, of sample_platform]
    by (simp add: rewrite_gift_Inr_iff sample_gift_properties)
  then obtain published where published: "map_gifts sample_platform (take 5 ?arr) = Inr published"
    using map_gifts_total by blast
  from map_gifts_Inr [OF published] have "length published = 5"
    by simp
  moreover note fetch_success [where callGeminiApi = "gateway_returns sample_response"
      and c = sample_criteria and st = init_state, OF response published]
  ultimately show ?thesis
    by (intro exI [of _ published]) (simp add: init_state_def js_slice0_def)
qed

text \<open>
  Claim C3 as first stated covers every call.  After a first fetch that succeeds and a
  second that fails, the displayed list is empty (the second fetch cleared it) and the
  cursor is 0; \<open>goBackInHistory\<close> then does nothing, and the displayed list is not the
  history entry at the cursor.
\<close>

theorem back_at_first_entry_counterexample:
  "giftIdeas
     (goBackInHistory
        (fetchGiftSuggestions sample_platform (gateway_throws (Error (js ''API error: 500'')))
           sample_criteria
           (fetchGiftSuggestions sample_platform (gateway_returns sample_response)
              sample_criteria init_state))) = Some []
   \<and> js_index
       (giftIdeasHistory
          (goBackInHistory
             (fetchGiftSuggestions sample_platform (gateway_throws (Error (js ''API error: 500'')))
                sample_criteria
                (fetchGiftSuggestions sample_platform (gateway_returns sample_response)
                   sample_criteria init_state))))
       (historyIndex
          (goBackInHistory
             (fetchGiftSuggestions sample_platform (gateway_throws (Error (js ''API error: 500'')))
                sample_criteria
                (fetchGiftSuggestions sample_platform (gateway_returns sample_response)
                   sample_criteria init_state)))) \<noteq> Some []"
proof -
  from sample_first_fetch obtain published where published: "length published = 5"
    and first: "fetchGiftSuggestions sample_platform (gateway_returns sample_response)
        sample_criteria init_state =
      \<lparr>giftIdeas = Some published, isLoading = False, error = None,
       giftIdeasHistory = [published], historyIndex = 0\<rparr>"
    by blast
  have "gateway_throws (Error (js ''API error: 500'')) (mainPrompt sample_criteria) =
      Threw (Error (js ''API error: 500''))"
    by (simp add: gateway_throws_def)
  note failed = fetch_threw [where callGeminiApi = "gateway_throws (Error (js ''API error: 500''))"
      and c = sample_criteria and pf = sample_platform, OF this]
  from published show ?thesis
    unfolding first failed by (auto simp: goBackInHistory_def js_index_def)
qed

lemma cursor_in_range_fetch:
  assumes "- 1 \<le> historyIndex st" and "historyIndex st < int (length (giftIdeasHistory st))"
  shows "- 1 \<le> historyIndex (fetchGiftSuggestions pf api c st)
       \<and> historyIndex (fetchGiftSuggestions pf api c st)
           < int (length (giftIdeasHistory (fetchGiftSuggestions pf api c st)))"
  using assms
  by (auto simp: fetchGiftSuggestions_def fetch_finish_def fetch_start_def fetch_failed_def
        publish_and_push_def js_slice0_def split: api_outcome.splits sum.splits)

lemma cursor_in_range_navigation:
  assumes "- 1 \<le> historyIndex st" and "historyIndex st < int (length (giftIdeasHistory st))"
  shows "- 1 \<le> historyIndex (goBackInHistory st)
       \<and> historyIndex (goBackInHistory st) < int (length (giftIdeasHistory (goBackInHistory st)))
       \<and> - 1 \<le> historyIndex (goForwardInHistory st)
       \<and> historyIndex (goForwardInHistory st)
           < int (length (giftIdeasHistory (goForwardInHistory st)))"
  using assms by (auto simp: goBackInHistory_def goForwardInHistory_def Let_def)

lemma reachable_cursor_in_range:
  "reachable pf st \<Longrightarrow>
     - 1 \<le> historyIndex st \<and> historyIndex st < int (length (giftIdeasHistory st))"
proof (induction rule: reachable.induct)
  case reachable_init
  then show ?case by (simp add: init_state_def)
next
  case (reachable_fetch st api c)
  then show ?case using cursor_in_range_fetch by blast
next
  case (reachable_back st)
  then show ?case using cursor_in_range_navigation by blast
next
  case (reachable_forward st)
  then show ?case using cursor_in_range_navigation by blast
qed

end
